theory Spec2Isabelle
  imports Main "HOL-Library.Word" "HOL-Library.Sublist"
begin

section \<open>JavaScript strings\<close>

text \<open>
  A JavaScript string is a sequence of UTF-16 code units, and \<open>s.length\<close> counts code
  units: a string is a list of 16-bit words and its length is the list's length.
\<close>

type_synonym jsstring = "16 word list"

definition lit :: "string \<Rightarrow> jsstring" where
  \<comment> \<open>an ASCII string literal of the source, as code units\<close>
  "lit s = map (\<lambda>c. of_nat (of_char c)) s"

definition isWhiteSpace :: "16 word \<Rightarrow> bool" where
  \<comment> \<open>What \<open>String.prototype.trim\<close> strips: ECMAScript WhiteSpace (TAB, VT, FF, SP, NBSP,
      ZWNBSP and the Unicode space separators) and LineTerminator (LF, CR, LS, PS).\<close>
  "isWhiteSpace c \<longleftrightarrow>
     c = 0x0009 \<or> c = 0x000A \<or> c = 0x000B \<or> c = 0x000C \<or> c = 0x000D \<or> c = 0x0020 \<or>
     c = 0x00A0 \<or> c = 0x1680 \<or> (0x2000 \<le> c \<and> c \<le> 0x200A) \<or> c = 0x2028 \<or> c = 0x2029 \<or>
     c = 0x202F \<or> c = 0x205F \<or> c = 0x3000 \<or> c = 0xFEFF"

definition trim :: "jsstring \<Rightarrow> jsstring" where
  \<comment> \<open>\<open>s.trim()\<close>: white space removed from both ends\<close>
  "trim s = rev (dropWhile isWhiteSpace (rev (dropWhile isWhiteSpace s)))"


section \<open>Data model\<close>

type_synonym ident = nat
type_synonym timestamp = nat

text \<open>
  \<open>InsertMessage\<close> is the argument of \<open>storage.createMessage\<close>; a \<open>Message\<close> is the
  stored record: the same two fields with an identifier and a creation time.
\<close>

record insert_message =
  prompt :: jsstring
  response :: jsstring

record message = insert_message +
  id_msg :: ident
  createdAt :: timestamp

text \<open>
  The body that \<open>res.json\<close> sends. \<open>'e\<close> is the type of the issue list of a
  \<open>ZodError\<close> (\<open>error.errors\<close>).
\<close>

datatype 'e json_body =
    Generated (gen_id: ident) (gen_prompt: jsstring) (gen_response: jsstring)
      (gen_createdAt: timestamp) (tokens: nat)
  | ErrorBody (error: jsstring)
  | ErrorDetails (error: jsstring) (details: 'e)
  | MessageList "message list"

record 'e http_response =
  status :: nat
  json :: "'e json_body"

text \<open>
  What can be thrown inside a \<open>try\<close> block and reach its \<open>catch\<close>: a \<open>ZodError\<close> with
  its issues, or any other \<open>Error\<close> with its message. The \<open>catch\<close> of the generate route
  tells the two apart with \<open>instanceof\<close>, whichever call of the block threw.
\<close>

datatype 'e thrown = ZodError 'e | Error jsstring

text \<open>
  The calls a handler makes to its collaborators, in order: the generation service and the
  store.
\<close>

datatype call =
    Call_generateText jsstring
  | Call_createMessage insert_message
  | Call_getMessages

text \<open>
  The \<open>storage\<close> object the routes import, over a store state \<open>'s\<close>. A call either throws
  (\<open>Inl\<close> what it throws) or returns. \<open>createMessage\<close> also receives the clock reading of
  the moment of the call, which the store takes from its environment.
\<close>

record ('e, 's) storage =
  createMessage :: "timestamp \<Rightarrow> insert_message \<Rightarrow> 's \<Rightarrow> ('e thrown + message) \<times> 's"
  getMessages :: "'s \<Rightarrow> 'e thrown + message list"


section \<open>The routes\<close>

text \<open>
  \<open>POST /api/generate\<close>. The parameters are the collaborators of the handler:
  \<open>promptSchema\<close> is \<open>promptSchema.parse\<close> followed by the destructuring of \<open>prompt\<close>
  (\<open>Inl\<close> the issues of the \<open>ZodError\<close> it throws), \<open>generateText\<close> is the generation
  service (\<open>Inl\<close> what it throws). The result is the response sent, the calls made and the
  store afterwards.

  \<open>generate_try\<close> is the \<open>try\<close> block: \<open>Inl\<close> is an exception on its way to \<open>catch\<close>,
  \<open>Inr\<close> a response already sent. The parsed \<open>prompt\<close> is a string, so \<open>!prompt\<close> holds
  exactly for the empty string. \<open>Math.floor(response.length / 4)\<close> is exact on a string
  length, so it is \<open>div\<close> on \<open>nat\<close>. A response without \<open>res.status\<close> has status 200.
  The \<open>console.error\<close> lines of the \<open>catch\<close> blocks only log and are left out.
\<close>

definition generate_try ::
  "('b \<Rightarrow> 'e + jsstring) \<Rightarrow> (jsstring \<Rightarrow> 'e thrown + jsstring) \<Rightarrow> ('e, 's) storage \<Rightarrow> timestamp \<Rightarrow>
   'b \<Rightarrow> 's \<Rightarrow> ('e thrown + 'e http_response) \<times> call list \<times> 's" where
  "generate_try promptSchema generateText storage now body st =
     (case promptSchema body of
        Inl issues \<Rightarrow> (Inl (ZodError issues), [], st)
      | Inr prompt_str \<Rightarrow>
          if prompt_str = [] \<or> length (trim prompt_str) = 0 then
            (Inr \<lparr>status = 400,
                  json = ErrorBody (lit ''Prompt is required and cannot be empty'')\<rparr>, [], st)
          else if length prompt_str > 2000 then
            (Inr \<lparr>status = 400,
                  json = ErrorBody (lit ''Prompt exceeds maximum length of 2000 characters'')\<rparr>,
             [], st)
          else
            (case generateText prompt_str of
               Inl err \<Rightarrow> (Inl err, [Call_generateText prompt_str], st)
             | Inr response_str \<Rightarrow>
                 let ins = \<lparr>prompt = trim prompt_str, response = trim response_str\<rparr> in
                 (case createMessage storage now ins st of
                    (Inl err, st') \<Rightarrow>
                      (Inl err, [Call_generateText prompt_str, Call_createMessage ins], st')
                  | (Inr message, st') \<Rightarrow>
                      (Inr \<lparr>status = 200,
                            json = Generated (id_msg message) (prompt message)
                                     (response message) (createdAt message)
                                     (length response_str div 4)\<rparr>,
                       [Call_generateText prompt_str, Call_createMessage ins], st'))))"

definition generate_catch :: "'e thrown \<Rightarrow> 'e http_response" where
  \<comment> \<open>the \<open>catch\<close> block; \<open>error.message || d\<close> is \<open>d\<close> when the message is the empty string\<close>
  "generate_catch err =
     (case err of
        ZodError issues \<Rightarrow>
          \<lparr>status = 400, json = ErrorDetails (lit ''Invalid request format'') issues\<rparr>
      | Error msg \<Rightarrow>
          \<lparr>status = 500,
           json = ErrorBody (if msg = [] then lit ''Failed to generate AI response'' else msg)\<rparr>)"

definition generate_handler ::
  "('b \<Rightarrow> 'e + jsstring) \<Rightarrow> (jsstring \<Rightarrow> 'e thrown + jsstring) \<Rightarrow> ('e, 's) storage \<Rightarrow> timestamp \<Rightarrow>
   'b \<Rightarrow> 's \<Rightarrow> 'e http_response \<times> call list \<times> 's" where
  "generate_handler promptSchema generateText storage now body st =
     (case generate_try promptSchema generateText storage now body st of
        (Inl err, calls, st') \<Rightarrow> (generate_catch err, calls, st')
      | (Inr res, calls, st') \<Rightarrow> (res, calls, st'))"

text \<open>\<open>GET /api/messages\<close>.\<close>

definition messages_handler :: "('e, 's) storage \<Rightarrow> 's \<Rightarrow> 'e http_response \<times> call list \<times> 's" where
  "messages_handler storage st =
     (case getMessages storage st of
        Inr messages \<Rightarrow> (\<lparr>status = 200, json = MessageList messages\<rparr>, [Call_getMessages], st)
      | Inl err \<Rightarrow>
          (\<lparr>status = 500, json = ErrorBody (lit ''Failed to retrieve messages'')\<rparr>,
           [Call_getMessages], st))"


section \<open>The prompt schema\<close>

text \<open>
  The parsed request body (\<open>req.body\<close> after \<open>express.json()\<close>). An object is the list of
  its own properties, each key once. The numeric value of a number plays no part in the
  schema; it is kept as an integer.
\<close>

datatype jsvalue =
    JNull
  | JBool bool
  | JNum int
  | JStr jsstring
  | JArr "jsvalue list"
  | JObj "(jsstring \<times> jsvalue) list"

datatype zod_issue = Invalid_type (path: "jsstring list")

definition promptSchema :: "jsvalue \<Rightarrow> zod_issue list + jsstring" where
  \<comment> \<open>Modelled from the spec: \<open>promptSchema\<close> of \<open>@shared/schema\<close>, which is not among the
      sources. The spec gives the body as \<open>{prompt: string}\<close>: an object whose property
      \<open>prompt\<close> is a string. An issue records the path of the value that has the wrong
      type.\<close>
  "promptSchema body =
     (case body of
        JObj props \<Rightarrow>
          (case map_of props (lit ''prompt'') of
             Some (JStr s) \<Rightarrow> Inr s
           | _ \<Rightarrow> Inl [Invalid_type [lit ''prompt'']])
      | _ \<Rightarrow> Inl [Invalid_type []])"


section \<open>The message store\<close>

text \<open>
  Modelled from the spec: the storage module is not among the sources. The spec describes an
  in-memory map from identifier to record, append-only, whose \<open>createMessage\<close> assigns a
  fresh unique id and the current timestamp, inserts, and returns the stored record, and
  whose \<open>getMessages\<close> returns all stored messages in insertion order. The map is a
  JavaScript \<open>Map\<close>: a list of entries in insertion order, where \<open>set\<close> on a key already
  present replaces its value in place and \<open>set\<close> on a new key adds an entry at the end.
\<close>

type_synonym message_store = "(ident \<times> message) list"

fun map_set :: "ident \<Rightarrow> message \<Rightarrow> message_store \<Rightarrow> message_store" where
  \<comment> \<open>Modelled from the spec: the insertion into the in-memory map, as \<open>Map.set\<close> does it.\<close>
  "map_set k v [] = [(k, v)]"
| "map_set k v ((k', v') # kvs) =
     (if k = k' then (k, v) # kvs else (k', v') # map_set k v kvs)"

fun fresh_id :: "message_store \<Rightarrow> ident" where
  \<comment> \<open>Modelled from the spec: an identifier that is not a key of the map (one more than
      the largest key).\<close>
  "fresh_id [] = 0"
| "fresh_id ((k, v) # kvs) = max (Suc k) (fresh_id kvs)"

definition mem_createMessage ::
  "timestamp \<Rightarrow> insert_message \<Rightarrow> message_store \<Rightarrow> ('e thrown + message) \<times> message_store" where
  \<comment> \<open>Modelled from the spec: assigns a fresh unique id and the current timestamp, inserts,
      returns the stored record.\<close>
  "mem_createMessage now ins store =
     (let message = \<lparr>prompt = prompt ins, response = response ins,
                     id_msg = fresh_id store, createdAt = now\<rparr>
      in (Inr message, map_set (id_msg message) message store))"

definition mem_getMessages :: "message_store \<Rightarrow> 'e thrown + message list" where
  \<comment> \<open>Modelled from the spec: all stored messages in insertion order.\<close>
  "mem_getMessages store = Inr (map snd store)"

definition MemStorage :: "('e, message_store) storage" where
  \<comment> \<open>Modelled from the spec: the \<open>storage\<close> object, made of the two operations above.\<close>
  "MemStorage = \<lparr>createMessage = mem_createMessage, getMessages = mem_getMessages\<rparr>"


section \<open>The server\<close>

text \<open>
  A request to one of the two routes. A \<open>POST /api/generate\<close> comes with its body, with
  what the generation service does when it is called during this request, and with the
  clock reading at that moment.
\<close>

datatype request =
    PostGenerate jsvalue "jsstring \<Rightarrow> zod_issue list thrown + jsstring" timestamp
  | GetMessages

definition handle ::
  "request \<Rightarrow> message_store \<Rightarrow> zod_issue list http_response \<times> call list \<times> message_store" where
  "handle req store =
     (case req of
        PostGenerate body generateText now \<Rightarrow>
          generate_handler promptSchema generateText MemStorage now body store
      | GetMessages \<Rightarrow> messages_handler MemStorage store)"

fun serve :: "request list \<Rightarrow> message_store \<Rightarrow> zod_issue list http_response list \<times> message_store" where
  \<comment> \<open>the requests handled one after the other; the responses in order and the final store\<close>
  "serve [] store = ([], store)"
| "serve (req # reqs) store =
     (case handle req store of
        (res, calls, store') \<Rightarrow>
          (case serve reqs store' of (ress, store'') \<Rightarrow> (res # ress, store'')))"

text \<open>
  Generation services for concrete runs: one that returns a given text for every prompt,
  one that throws an \<open>Error\<close> with a given message, one that throws a \<open>ZodError\<close> with
  given issues, and one that throws on one given prompt only and returns the prompt
  itself on every other.
\<close>

type_synonym generation = "jsstring \<Rightarrow> zod_issue list thrown + jsstring"

definition generateText_returns :: "jsstring \<Rightarrow> generation" where
  "generateText_returns text prompt_str = Inr text"

definition generateText_throws :: "jsstring \<Rightarrow> generation" where
  "generateText_throws msg prompt_str = Inl (Error msg)"

definition generateText_throws_zod :: "zod_issue list \<Rightarrow> generation" where
  "generateText_throws_zod issues prompt_str = Inl (ZodError issues)"

definition generateText_throws_on :: "jsstring \<Rightarrow> generation" where
  "generateText_throws_on bad prompt_str =
     (if prompt_str = bad then Inl (Error (lit ''rejected'')) else Inr prompt_str)"


text \<open>
  The message that a response of \<open>POST /api/generate\<close> reports as created (none unless
  the body is the one of a successful generation), and the messages that a sequence of
  responses reports, in the order of the responses.
\<close>

definition message_of :: "'e http_response \<Rightarrow> message list" where
  "message_of res =
     (case json res of
        Generated i p r t n \<Rightarrow> [\<lparr>prompt = p, response = r, id_msg = i, createdAt = t\<rparr>]
      | _ \<Rightarrow> [])"

definition created :: "'e http_response list \<Rightarrow> message list" where
  "created ress = concat (map message_of ress)"


text \<open>
  A concrete run: a successful generation, a failed one, a read and a second successful
  generation, with the two messages it creates.
\<close>

definition example_requests :: "request list" where
  "example_requests =
     [PostGenerate (JObj [(lit ''prompt'', JStr (lit '' a''))]) (generateText_returns (lit ''x '')) 10,
      PostGenerate (JObj [(lit ''prompt'', JStr (lit ''b''))]) (generateText_throws (lit ''down'')) 11,
      GetMessages,
      PostGenerate (JObj [(lit ''prompt'', JStr (lit ''c''))]) (generateText_returns (lit ''y'')) 12]"

definition example_first :: message where
  "example_first = \<lparr>prompt = lit ''a'', response = lit ''x'', id_msg = 0, createdAt = 10\<rparr>"

definition example_second :: message where
  "example_second = \<lparr>prompt = lit ''c'', response = lit ''y'', id_msg = 1, createdAt = 12\<rparr>"


section \<open>Evaluation\<close>

text \<open>The defining equations that evaluate a concrete run.\<close>

lemmas run_simps =
  handle_def generate_handler_def generate_try_def generate_catch_def messages_handler_def
  promptSchema_def lit_def trim_def isWhiteSpace_def generateText_returns_def
  generateText_throws_def generateText_throws_zod_def generateText_throws_on_def MemStorage_def mem_createMessage_def mem_getMessages_def Let_def


section \<open>Trimming\<close>

lemma trim_Nil [simp]: "trim [] = []"
  by (simp add: trim_def)

lemma trim_letter_spaces: "trim (0x61 # replicate n 0x20) = [0x61]"
  by (simp add: trim_def isWhiteSpace_def dropWhile_append)

lemma trim_spaces: "trim (replicate n 0x20) = []"
  by (simp add: trim_def isWhiteSpace_def)


section \<open>The branches of the generate handler\<close>

text \<open>
  One equation for each way through \<open>POST /api/generate\<close>, for any schema, generation
  service and store.
\<close>

lemma length_trim_le: "length (trim s) \<le> length s"
proof -
  have "length (dropWhile isWhiteSpace (rev (dropWhile isWhiteSpace s))) \<le>
          length (rev (dropWhile isWhiteSpace s))"
    by (rule length_dropWhile_le)
  also have "\<dots> = length (dropWhile isWhiteSpace s)"
    by simp
  also have "\<dots> \<le> length s"
    by (rule length_dropWhile_le)
  finally show ?thesis
    by (simp add: trim_def)
qed

lemma generate_handler_malformed:
  assumes "schema body = Inl issues"
  shows "generate_handler schema generateText storage now body st =
           (\<lparr>status = 400, json = ErrorDetails (lit ''Invalid request format'') issues\<rparr>, [], st)"
  using assms by (simp add: generate_handler_def generate_try_def generate_catch_def)

lemma generate_handler_empty:
  assumes "schema body = Inr p" and "trim p = []"
  shows "generate_handler schema generateText storage now body st =
           (\<lparr>status = 400, json = ErrorBody (lit ''Prompt is required and cannot be empty'')\<rparr>,
            [], st)"
  using assms by (simp add: generate_handler_def generate_try_def)

lemma generate_handler_too_long:
  assumes "schema body = Inr p" and "trim p \<noteq> []" and "length p > 2000"
  shows "generate_handler schema generateText storage now body st =
           (\<lparr>status = 400,
             json = ErrorBody (lit ''Prompt exceeds maximum length of 2000 characters'')\<rparr>,
            [], st)"
  using assms by (auto simp add: generate_handler_def generate_try_def)

lemma generate_handler_failed:
  assumes "schema body = Inr p" and "trim p \<noteq> []" and "length p \<le> 2000"
    and "generateText p = Inl err"
  shows "generate_handler schema generateText storage now body st =
           (generate_catch err, [Call_generateText p], st)"
  using assms by (auto simp add: generate_handler_def generate_try_def)

lemma generate_handler_stored:
  assumes "schema body = Inr p" and "trim p \<noteq> []" and "length p \<le> 2000"
    and "generateText p = Inr out"
    and "createMessage storage now \<lparr>prompt = trim p, response = trim out\<rparr> st = (Inr m, st')"
  shows "generate_handler schema generateText storage now body st =
           (\<lparr>status = 200,
             json = Generated (id_msg m) (prompt m) (response m) (createdAt m)
                      (length out div 4)\<rparr>,
            [Call_generateText p, Call_createMessage \<lparr>prompt = trim p, response = trim out\<rparr>],
            st')"
  using assms by (auto simp add: generate_handler_def generate_try_def Let_def)

lemma generate_handler_store_failed:
  assumes "schema body = Inr p" and "trim p \<noteq> []" and "length p \<le> 2000"
    and "generateText p = Inr out"
    and "createMessage storage now \<lparr>prompt = trim p, response = trim out\<rparr> st = (Inl err, st')"
  shows "generate_handler schema generateText storage now body st =
           (generate_catch err,
            [Call_generateText p, Call_createMessage \<lparr>prompt = trim p, response = trim out\<rparr>],
            st')"
  using assms by (auto simp add: generate_handler_def generate_try_def Let_def)

lemma generate_handler_valid:
  assumes "schema body = Inr p" and "trim p \<noteq> []" and "length p \<le> 2000"
  shows "generate_handler schema generateText storage now body st =
           (case generateText p of
              Inl err \<Rightarrow> (generate_catch err, [Call_generateText p], st)
            | Inr out \<Rightarrow>
                (case createMessage storage now \<lparr>prompt = trim p, response = trim out\<rparr> st of
                   (Inl err, st') \<Rightarrow>
                     (generate_catch err,
                      [Call_generateText p,
                       Call_createMessage \<lparr>prompt = trim p, response = trim out\<rparr>], st')
                 | (Inr m, st') \<Rightarrow>
                     (\<lparr>status = 200,
                       json = Generated (id_msg m) (prompt m) (response m) (createdAt m)
                                (length out div 4)\<rparr>,
                      [Call_generateText p,
                       Call_createMessage \<lparr>prompt = trim p, response = trim out\<rparr>], st')))"
  using assms
  by (auto simp add: generate_handler_def generate_try_def Let_def split: sum.splits prod.splits)


section \<open>The store appends\<close>

lemma fresh_id_greater: "(k, v) \<in> set kvs \<Longrightarrow> k < fresh_id kvs"
  by (induction kvs) auto

lemma map_set_new: "k \<notin> fst ` set kvs \<Longrightarrow> map_set k v kvs = kvs @ [(k, v)]"
  by (induction kvs) auto

lemma fresh_id_new: "fresh_id kvs \<notin> fst ` set kvs"
  using fresh_id_greater by fastforce

lemma mem_createMessage_appends:
  "mem_createMessage now ins store =
     (Inr \<lparr>prompt = prompt ins, response = response ins, id_msg = fresh_id store, createdAt = now\<rparr>,
      store @ [(fresh_id store,
                \<lparr>prompt = prompt ins, response = response ins, id_msg = fresh_id store,
                 createdAt = now\<rparr>)])"
  by (simp add: mem_createMessage_def Let_def map_set_new fresh_id_new)

lemma generate_handler_mem:
  assumes "schema body = Inr p" and "trim p \<noteq> []" and "length p \<le> 2000"
    and "generateText p = Inr out"
  shows "generate_handler schema generateText MemStorage now body store =
           (\<lparr>status = 200,
             json = Generated (fresh_id store) (trim p) (trim out) now (length out div 4)\<rparr>,
            [Call_generateText p, Call_createMessage \<lparr>prompt = trim p, response = trim out\<rparr>],
            store @ [(fresh_id store,
                      \<lparr>prompt = trim p, response = trim out, id_msg = fresh_id store,
                       createdAt = now\<rparr>)])"
  using assms
  by (simp add: generate_handler_stored [where p = p and out = out]
        MemStorage_def mem_createMessage_appends)


section \<open>Serving a sequence of requests\<close>

text \<open>
  Every request leaves the entries of the store in place and adds at the end the message
  that its response reports, if any.
\<close>

lemma message_of_simps [simp]:
  "message_of \<lparr>status = s, json = Generated i p r t n\<rparr> =
     [\<lparr>prompt = p, response = r, id_msg = i, createdAt = t\<rparr>]"
  "message_of \<lparr>status = s, json = ErrorBody e\<rparr> = []"
  "message_of \<lparr>status = s, json = ErrorDetails e d\<rparr> = []"
  "message_of \<lparr>status = s, json = MessageList ms\<rparr> = []"
  by (simp_all add: message_of_def)

lemma message_of_catch [simp]: "message_of (generate_catch err) = []"
  by (cases err) (simp_all add: generate_catch_def)

lemma generate_handler_mem_extends:
  assumes "generate_handler schema generateText MemStorage now body store = (res, calls, store')"
  shows "\<exists>new. store' = store @ new \<and> map snd new = message_of res"
proof (cases "schema body")
  case (Inl issues)
  with assms show ?thesis
    by (auto simp add: generate_handler_malformed)
next
  case (Inr p)
  show ?thesis
  proof (cases "trim p = []")
    case True
    with Inr assms show ?thesis
      by (auto simp add: generate_handler_empty)
  next
    case ne: False
    show ?thesis
    proof (cases "2000 < length p")
      case True
      with Inr ne assms show ?thesis
        by (auto simp add: generate_handler_too_long)
    next
      case False
      then have le: "length p \<le> 2000"
        by simp
      show ?thesis
      proof (cases "generateText p")
        case (Inl msg)
        with Inr ne le assms show ?thesis
          by (auto simp add: generate_handler_failed)
      next
        case out: (Inr out)
        from Inr ne le out assms show ?thesis
          by (auto simp add: generate_handler_mem [where p = p and out = out])
      qed
    qed
  qed
qed

lemma handle_extends:
  assumes "handle req store = (res, calls, store')"
  shows "\<exists>new. store' = store @ new \<and> map snd new = message_of res"
proof (cases req)
  case (PostGenerate body generateText now)
  with assms show ?thesis
    by (simp add: handle_def generate_handler_mem_extends)
next
  case GetMessages
  with assms show ?thesis
    by (auto simp add: handle_def messages_handler_def MemStorage_def mem_getMessages_def)
qed

lemma serve_extends:
  "serve reqs store = (ress, store') \<Longrightarrow>
     \<exists>new. store' = store @ new \<and> map snd new = created ress"
proof (induction reqs arbitrary: store ress store')
  case Nil
  then show ?case
    by (simp add: created_def)
next
  case (Cons req reqs)
  obtain res calls store1 where h: "handle req store = (res, calls, store1)"
    by (cases "handle req store")
  obtain ress1 store2 where s: "serve reqs store1 = (ress1, store2)"
    by (cases "serve reqs store1")
  from Cons.prems h s have eq: "ress = res # ress1" "store' = store2"
    by simp_all
  from handle_extends [OF h] obtain new1 where
    n1: "store1 = store @ new1" "map snd new1 = message_of res"
    by blast
  from Cons.IH [OF s] obtain new2 where
    n2: "store2 = store1 @ new2" "map snd new2 = created ress1"
    by blast
  have "store' = store @ (new1 @ new2) \<and> map snd (new1 @ new2) = created ress"
    using eq n1 n2 by (simp add: created_def)
  then show ?case
    by blast
qed

lemma handle_GetMessages:
  "handle GetMessages store =
     (\<lparr>status = 200, json = MessageList (map snd store)\<rparr>, [Call_getMessages], store)"
  by (simp add: handle_def messages_handler_def MemStorage_def mem_getMessages_def)

lemma serve_example_requests:
  "serve example_requests [] =
     ([\<lparr>status = 200, json = Generated 0 (lit ''a'') (lit ''x'') 10 0\<rparr>,
       \<lparr>status = 500, json = ErrorBody (lit ''down'')\<rparr>,
       \<lparr>status = 200, json = MessageList [example_first]\<rparr>,
       \<lparr>status = 200, json = Generated 1 (lit ''c'') (lit ''y'') 12 0\<rparr>],
      [(0, example_first), (1, example_second)])"
  by (simp add: example_requests_def example_first_def example_second_def run_simps)


section \<open>Claims\<close>

subsection \<open>C1: what the generation service is called with\<close>

text \<open>
  C1 as written says that for a valid prompt the generation service is called with the
  trimmed prompt. The handler passes \<open>prompt\<close> itself to \<open>generateText\<close> and trims only
  what it stores. Take a service that throws on \<open>" a"\<close> and on nothing else: on the
  trimmed prompt \<open>"a"\<close> it succeeds, yet for the prompt \<open>" a"\<close> the handler answers 500
  with the service's error and stores nothing.
\<close>

theorem generate_calls_collaborator_trimmed_counterexample:
  "promptSchema (JObj [(lit ''prompt'', JStr (lit '' a''))]) = Inr (lit '' a'') \<and>
   trim (lit '' a'') = lit ''a'' \<and> lit ''a'' \<noteq> [] \<and> length (lit '' a'') \<le> 2000 \<and>
   generateText_throws_on (lit '' a'') (trim (lit '' a'')) = Inr (lit ''a'') \<and>
   generate_handler promptSchema (generateText_throws_on (lit '' a'')) MemStorage 0
       (JObj [(lit ''prompt'', JStr (lit '' a''))]) [] =
     (\<lparr>status = 500, json = ErrorBody (lit ''rejected'')\<rparr>,
      [Call_generateText (lit '' a'')], [])"
  by (simp add: run_simps)

text \<open>
  C1, amended: for every valid prompt (not empty after trimming, at most 2000 code units)
  the handler calls the generation service exactly once, first of all its calls, with the
  prompt as it was received, untrimmed: the outcome of the request depends on the service
  only through what the service does on the untrimmed prompt, and when the service throws
  on the untrimmed prompt the response is the one the \<open>catch\<close> block makes of that error.
\<close>

theorem generate_calls_collaborator_untrimmed:
  assumes "schema body = Inr p" and "trim p \<noteq> []" and "length p \<le> 2000"
  shows "(\<exists>rest. fst (snd (generate_handler schema generateText storage now body st)) =
                   Call_generateText p # rest \<and>
                 (\<forall>q. Call_generateText q \<notin> set rest)) \<and>
         (\<forall>g. g p = generateText p \<longrightarrow>
               generate_handler schema g storage now body st =
               generate_handler schema generateText storage now body st) \<and>
         (\<forall>err. generateText p = Inl err \<longrightarrow>
                 fst (generate_handler schema generateText storage now body st) =
                 generate_catch err)"
proof (intro conjI allI impI)
  show "\<exists>rest. fst (snd (generate_handler schema generateText storage now body st)) =
                  Call_generateText p # rest \<and>
                (\<forall>q. Call_generateText q \<notin> set rest)"
    using assms
    by (simp add: generate_handler_valid [where p = p] split: sum.splits prod.splits)
next
  fix g
  assume "g p = generateText p"
  with assms show "generate_handler schema g storage now body st =
             generate_handler schema generateText storage now body st"
    by (simp add: generate_handler_valid [where p = p])
next
  fix err
  assume "generateText p = Inl err"
  with assms show "fst (generate_handler schema generateText storage now body st) =
                   generate_catch err"
    by (simp add: generate_handler_valid [where p = p])
qed

theorem generate_calls_collaborator_untrimmed_witness:
  "promptSchema (JObj [(lit ''prompt'', JStr (lit '' a''))]) = Inr (lit '' a'') \<and>
   trim (lit '' a'') \<noteq> [] \<and> length (lit '' a'') \<le> 2000 \<and>
   (\<exists>rest. fst (snd (generate_handler promptSchema (generateText_throws_on (lit ''x''))
                       MemStorage 0 (JObj [(lit ''prompt'', JStr (lit '' a''))]) [])) =
              Call_generateText (lit '' a'') # rest \<and>
            (\<forall>q. Call_generateText q \<notin> set rest)) \<and>
   generateText_returns (lit '' a'') (lit '' a'') =
     generateText_throws_on (lit ''x'') (lit '' a'') \<and>
   generate_handler promptSchema (generateText_returns (lit '' a'')) MemStorage 0
       (JObj [(lit ''prompt'', JStr (lit '' a''))]) [] =
     generate_handler promptSchema (generateText_throws_on (lit ''x'')) MemStorage 0
       (JObj [(lit ''prompt'', JStr (lit '' a''))]) [] \<and>
   generateText_throws_on (lit '' a'') (lit '' a'') = Inl (Error (lit ''rejected'')) \<and>
   fst (generate_handler promptSchema (generateText_throws_on (lit '' a'')) MemStorage 0
          (JObj [(lit ''prompt'', JStr (lit '' a''))]) []) =
     \<lparr>status = 500, json = ErrorBody (lit ''rejected'')\<rparr>"
proof -
  have h1: "promptSchema (JObj [(lit ''prompt'', JStr (lit '' a''))]) = Inr (lit '' a'')"
    by (simp add: promptSchema_def lit_def)
  have h2: "trim (lit '' a'') \<noteq> []"
    by (simp add: trim_def lit_def isWhiteSpace_def)
  have h3: "length (lit '' a'') \<le> 2000"
    by (simp add: lit_def)
  have h4: "generateText_returns (lit '' a'') (lit '' a'') =
              generateText_throws_on (lit ''x'') (lit '' a'')"
    by (simp add: generateText_returns_def generateText_throws_on_def lit_def)
  have h5: "generateText_throws_on (lit '' a'') (lit '' a'') = Inl (Error (lit ''rejected''))"
    by (simp add: generateText_throws_on_def)
  have c: "generate_catch (Error (lit ''rejected'') :: zod_issue list thrown) =
             \<lparr>status = 500, json = ErrorBody (lit ''rejected'')\<rparr>"
    by (simp add: generate_catch_def lit_def)
  note first =
    generate_calls_collaborator_untrimmed [where schema = promptSchema
      and body = "JObj [(lit ''prompt'', JStr (lit '' a''))]" and p = "lit '' a''"
      and generateText = "generateText_throws_on (lit ''x'')" and storage = MemStorage
      and now = 0 and st = "[]", OF h1 h2 h3]
  note second =
    generate_calls_collaborator_untrimmed [where schema = promptSchema
      and body = "JObj [(lit ''prompt'', JStr (lit '' a''))]" and p = "lit '' a''"
      and generateText = "generateText_throws_on (lit '' a'')" and storage = MemStorage
      and now = 0 and st = "[]", OF h1 h2 h3]
  have trace:
    "\<exists>rest. fst (snd (generate_handler promptSchema (generateText_throws_on (lit ''x''))
                       MemStorage 0 (JObj [(lit ''prompt'', JStr (lit '' a''))]) [])) =
              Call_generateText (lit '' a'') # rest \<and>
            (\<forall>q. Call_generateText q \<notin> set rest)"
    by (rule first [THEN conjunct1])
  have same:
    "generate_handler promptSchema (generateText_returns (lit '' a'')) MemStorage 0
       (JObj [(lit ''prompt'', JStr (lit '' a''))]) [] =
     generate_handler promptSchema (generateText_throws_on (lit ''x'')) MemStorage 0
       (JObj [(lit ''prompt'', JStr (lit '' a''))]) []"
  proof -
    have "\<forall>g. g (lit '' a'') = generateText_throws_on (lit ''x'') (lit '' a'') \<longrightarrow>
            generate_handler promptSchema g MemStorage 0
              (JObj [(lit ''prompt'', JStr (lit '' a''))]) [] =
            generate_handler promptSchema (generateText_throws_on (lit ''x'')) MemStorage 0
              (JObj [(lit ''prompt'', JStr (lit '' a''))]) []"
      by (rule first [THEN conjunct2, THEN conjunct1])
    then have "generateText_returns (lit '' a'') (lit '' a'') =
                 generateText_throws_on (lit ''x'') (lit '' a'') \<longrightarrow>
            generate_handler promptSchema (generateText_returns (lit '' a'')) MemStorage 0
              (JObj [(lit ''prompt'', JStr (lit '' a''))]) [] =
            generate_handler promptSchema (generateText_throws_on (lit ''x'')) MemStorage 0
              (JObj [(lit ''prompt'', JStr (lit '' a''))]) []"
      by (rule spec [where x = "generateText_returns (lit '' a'')"])
    then show ?thesis
      using h4 by (rule mp)
  qed
  have thrown:
    "fst (generate_handler promptSchema (generateText_throws_on (lit '' a'')) MemStorage 0
          (JObj [(lit ''prompt'', JStr (lit '' a''))]) []) =
     \<lparr>status = 500, json = ErrorBody (lit ''rejected'')\<rparr>"
  proof -
    have "\<forall>err. generateText_throws_on (lit '' a'') (lit '' a'') = Inl err \<longrightarrow>
            fst (generate_handler promptSchema (generateText_throws_on (lit '' a'')) MemStorage 0
                   (JObj [(lit ''prompt'', JStr (lit '' a''))]) []) =
            generate_catch err"
      by (rule second [THEN conjunct2, THEN conjunct2])
    then have "generateText_throws_on (lit '' a'') (lit '' a'') = Inl (Error (lit ''rejected'')) \<longrightarrow>
            fst (generate_handler promptSchema (generateText_throws_on (lit '' a'')) MemStorage 0
                   (JObj [(lit ''prompt'', JStr (lit '' a''))]) []) =
            generate_catch (Error (lit ''rejected''))"
      by (rule spec [where x = "Error (lit ''rejected'')"])
    then have "fst (generate_handler promptSchema (generateText_throws_on (lit '' a'')) MemStorage 0
                   (JObj [(lit ''prompt'', JStr (lit '' a''))]) []) =
            generate_catch (Error (lit ''rejected''))"
      using h5 by (rule mp)
    then show ?thesis
      unfolding c .
  qed
  show ?thesis
    by (intro conjI h1 h2 h3 trace h4 same h5 thrown)
qed

subsection \<open>C2: empty and oversized prompts\<close>

text \<open>
  C2: for every request whose prompt is empty after trimming or longer than 2000 code
  units, \<open>POST /api/generate\<close> answers 400 with an error body, makes no call at all (so
  \<open>createMessage\<close> is never called) and leaves the store as it was. This holds for any
  schema, generation service and store.
\<close>

theorem generate_rejects_empty_or_oversized:
  assumes "schema body = Inr p" and "trim p = [] \<or> 2000 < length p"
  shows "\<exists>msg. generate_handler schema generateText storage now body st =
                 (\<lparr>status = 400, json = ErrorBody msg\<rparr>, [], st)"
proof (cases "trim p = []")
  case True
  with assms(1) show ?thesis
    by (simp add: generate_handler_empty)
next
  case False
  with assms show ?thesis
    by (simp add: generate_handler_too_long)
qed

theorem generate_rejects_empty_or_oversized_witness:
  "promptSchema (JObj [(lit ''prompt'', JStr (lit ''  ''))]) = Inr (lit ''  '') \<and>
   (trim (lit ''  '') = [] \<or> 2000 < length (lit ''  '')) \<and>
   (\<exists>msg. generate_handler promptSchema (generateText_returns (lit ''ok'')) MemStorage 0
             (JObj [(lit ''prompt'', JStr (lit ''  ''))]) [] =
           (\<lparr>status = 400, json = ErrorBody msg\<rparr>, [], []))"
proof -
  have h1: "promptSchema (JObj [(lit ''prompt'', JStr (lit ''  ''))]) = Inr (lit ''  '')"
    by (simp add: promptSchema_def lit_def)
  have h2: "trim (lit ''  '') = [] \<or> 2000 < length (lit ''  '')"
    by (simp add: trim_def lit_def isWhiteSpace_def)
  show ?thesis
    using h1 h2
      generate_rejects_empty_or_oversized [where schema = promptSchema
        and body = "JObj [(lit ''prompt'', JStr (lit ''  ''))]" and p = "lit ''  ''"
        and generateText = "generateText_returns (lit ''ok'')" and storage = MemStorage
        and now = 0 and st = "[]"]
    by simp
qed

subsection \<open>C3: failure of the generation service\<close>

text \<open>
  C3 as written says that whenever the generation service throws on a valid prompt the
  response is 500 with the service's message. The \<open>catch\<close> block first tests
  \<open>error instanceof z.ZodError\<close>, whatever call of the \<open>try\<close> block threw: when the
  service throws a \<open>ZodError\<close> the response is 400 \<open>"Invalid request format"\<close>.
\<close>

theorem generate_failure_zod_counterexample:
  "promptSchema (JObj [(lit ''prompt'', JStr (lit ''a''))]) = Inr (lit ''a'') \<and>
   trim (lit ''a'') \<noteq> [] \<and> length (lit ''a'') \<le> 2000 \<and>
   generateText_throws_zod [Invalid_type []] (lit ''a'') = Inl (ZodError [Invalid_type []]) \<and>
   fst (generate_handler promptSchema (generateText_throws_zod [Invalid_type []]) MemStorage 0
          (JObj [(lit ''prompt'', JStr (lit ''a''))]) []) =
     \<lparr>status = 400, json = ErrorDetails (lit ''Invalid request format'') [Invalid_type []]\<rparr> \<and>
   status (fst (generate_handler promptSchema (generateText_throws_zod [Invalid_type []])
                  MemStorage 0 (JObj [(lit ''prompt'', JStr (lit ''a''))]) [])) \<noteq> 500"
  by (simp add: run_simps)

text \<open>
  C3, amended: for every valid prompt, if the generation service throws, \<open>createMessage\<close>
  is not called and the store is left as it was, for any store; when what the service
  throws is not a \<open>ZodError\<close> the response is 500 and its error text is the message thrown
  (\<open>"Failed to generate AI response"\<close> when that message is empty), and when it is a
  \<open>ZodError\<close> the response is 400 \<open>"Invalid request format"\<close> with the error's issues.
\<close>

theorem generate_failure_no_store:
  assumes "schema body = Inr p" and "trim p \<noteq> []" and "length p \<le> 2000"
    and "generateText p = Inl err"
  shows "\<exists>res calls.
           generate_handler schema generateText storage now body st = (res, calls, st) \<and>
           (\<forall>ins. Call_createMessage ins \<notin> set calls) \<and>
           res = (case err of
                    Error msg \<Rightarrow>
                      \<lparr>status = 500,
                       json = ErrorBody (if msg = [] then lit ''Failed to generate AI response''
                                         else msg)\<rparr>
                  | ZodError issues \<Rightarrow>
                      \<lparr>status = 400,
                       json = ErrorDetails (lit ''Invalid request format'') issues\<rparr>)"
  using assms
  by (cases err) (simp_all add: generate_handler_valid [where p = p] generate_catch_def)

theorem generate_failure_no_store_witness:
  "promptSchema (JObj [(lit ''prompt'', JStr (lit ''a''))]) = Inr (lit ''a'') \<and>
   trim (lit ''a'') \<noteq> [] \<and> length (lit ''a'') \<le> 2000 \<and>
   generateText_throws (lit ''quota'') (lit ''a'') = Inl (Error (lit ''quota'')) \<and>
   (\<exists>res calls.
      generate_handler promptSchema (generateText_throws (lit ''quota'')) MemStorage 0
        (JObj [(lit ''prompt'', JStr (lit ''a''))]) [] = (res, calls, []) \<and>
      (\<forall>ins. Call_createMessage ins \<notin> set calls) \<and>
      res = \<lparr>status = 500, json = ErrorBody (lit ''quota'')\<rparr>)"
proof -
  have h1: "promptSchema (JObj [(lit ''prompt'', JStr (lit ''a''))]) = Inr (lit ''a'')"
    by (simp add: promptSchema_def lit_def)
  have h2: "trim (lit ''a'') \<noteq> []"
    by (simp add: trim_def lit_def isWhiteSpace_def)
  have h3: "length (lit ''a'') \<le> 2000"
    by (simp add: lit_def)
  have h4: "generateText_throws (lit ''quota'') (lit ''a'') = Inl (Error (lit ''quota''))"
    by (simp add: generateText_throws_def)
  have h5: "lit ''quota'' \<noteq> []"
    by (simp add: lit_def)
  show ?thesis
    using h1 h2 h3 h4 h5
      generate_failure_no_store [where schema = promptSchema
        and body = "JObj [(lit ''prompt'', JStr (lit ''a''))]" and p = "lit ''a''"
        and generateText = "generateText_throws (lit ''quota'')"
        and err = "Error (lit ''quota'')"
        and storage = MemStorage and now = 0 and st = "[]"]
    by simp
qed

subsection \<open>C8: bodies that do not match the schema\<close>

text \<open>
  C8: for every request body that the prompt schema rejects, \<open>POST /api/generate\<close>
  answers 400 with the error body \<open>"Invalid request format"\<close> and the schema's issues,
  calls neither the generation service nor the store, and leaves the store as it was. The
  witness runs the handler on a body without \<open>prompt\<close> and on one whose \<open>prompt\<close> is a
  number.
\<close>

theorem generate_rejects_malformed_body:
  assumes "schema body = Inl issues"
  shows "generate_handler schema generateText storage now body st =
           (\<lparr>status = 400, json = ErrorDetails (lit ''Invalid request format'') issues\<rparr>, [], st)"
  using assms by (rule generate_handler_malformed)

theorem generate_rejects_malformed_body_witness:
  "promptSchema (JObj []) = Inl [Invalid_type [lit ''prompt'']] \<and>
   generate_handler promptSchema (generateText_returns (lit ''ok'')) MemStorage 0 (JObj []) [] =
     (\<lparr>status = 400,
       json = ErrorDetails (lit ''Invalid request format'') [Invalid_type [lit ''prompt'']]\<rparr>,
      [], []) \<and>
   promptSchema (JObj [(lit ''prompt'', JNum 42)]) = Inl [Invalid_type [lit ''prompt'']] \<and>
   generate_handler promptSchema (generateText_returns (lit ''ok'')) MemStorage 0
       (JObj [(lit ''prompt'', JNum 42)]) [] =
     (\<lparr>status = 400,
       json = ErrorDetails (lit ''Invalid request format'') [Invalid_type [lit ''prompt'']]\<rparr>,
      [], [])"
proof -
  have h1: "promptSchema (JObj []) = Inl [Invalid_type [lit ''prompt'']]"
    by (simp add: promptSchema_def)
  have h2: "promptSchema (JObj [(lit ''prompt'', JNum 42)]) = Inl [Invalid_type [lit ''prompt'']]"
    by (simp add: promptSchema_def)
  show ?thesis
    using h1 h2
      generate_rejects_malformed_body [where schema = promptSchema and body = "JObj []"
        and issues = "[Invalid_type [lit ''prompt'']]"
        and generateText = "generateText_returns (lit ''ok'')" and storage = MemStorage
        and now = 0 and st = "[]"]
      generate_rejects_malformed_body [where schema = promptSchema
        and body = "JObj [(lit ''prompt'', JNum 42)]"
        and issues = "[Invalid_type [lit ''prompt'']]"
        and generateText = "generateText_returns (lit ''ok'')" and storage = MemStorage
        and now = 0 and st = "[]"]
    by simp
qed

subsection \<open>C9: the length check reads the untrimmed prompt\<close>

text \<open>
  C9: for every prompt of more than 2000 code units as received, \<open>POST /api/generate\<close>
  answers 400 without any call, whatever the length of the trimmed prompt; when the
  prompt is not empty after trimming the error is the one of the length check. The witness
  is a letter followed by 2000 spaces: 2001 code units, one after trimming.
\<close>

theorem generate_length_check_is_raw:
  assumes "schema body = Inr p" and "2000 < length p"
  shows "\<exists>res. generate_handler schema generateText storage now body st = (res, [], st) \<and>
               status res = 400 \<and>
               (trim p \<noteq> [] \<longrightarrow>
                  json res = ErrorBody (lit ''Prompt exceeds maximum length of 2000 characters''))"
proof (cases "trim p = []")
  case True
  with assms(1) show ?thesis
    by (simp add: generate_handler_empty)
next
  case False
  with assms show ?thesis
    by (simp add: generate_handler_too_long)
qed

theorem generate_length_check_is_raw_witness:
  "promptSchema (JObj [(lit ''prompt'', JStr (0x61 # replicate 2000 0x20))]) =
     Inr (0x61 # replicate 2000 0x20) \<and>
   2000 < length (0x61 # replicate 2000 (0x20 :: 16 word)) \<and>
   length (trim (0x61 # replicate 2000 0x20)) \<le> 2000 \<and>
   generate_handler promptSchema (generateText_returns (lit ''ok'')) MemStorage 0
       (JObj [(lit ''prompt'', JStr (0x61 # replicate 2000 0x20))]) [] =
     (\<lparr>status = 400,
       json = ErrorBody (lit ''Prompt exceeds maximum length of 2000 characters'')\<rparr>, [], [])"
proof -
  have h1: "promptSchema (JObj [(lit ''prompt'', JStr (0x61 # replicate 2000 0x20))]) =
              Inr (0x61 # replicate 2000 0x20)"
    by (simp add: promptSchema_def lit_def)
  have h2: "2000 < length (0x61 # replicate 2000 (0x20 :: 16 word))"
    by simp
  have h3: "trim (0x61 # replicate 2000 0x20) = [0x61]"
    by (rule trim_letter_spaces)
  obtain res where
    "generate_handler promptSchema (generateText_returns (lit ''ok'')) MemStorage 0
       (JObj [(lit ''prompt'', JStr (0x61 # replicate 2000 0x20))]) [] = (res, [], [])"
    and "status res = 400"
    and "json res = ErrorBody (lit ''Prompt exceeds maximum length of 2000 characters'')"
    using h1 h2 h3
      generate_length_check_is_raw [where schema = promptSchema
        and body = "JObj [(lit ''prompt'', JStr (0x61 # replicate 2000 0x20))]"
        and p = "0x61 # replicate 2000 0x20"
        and generateText = "generateText_returns (lit ''ok'')"
        and storage = MemStorage and now = 0 and st = "[]"]
    by auto
  then show ?thesis
    using h1 h2 h3 by (cases res) simp
qed

subsection \<open>C4: the token estimate\<close>

text \<open>
  C4 as written says that \<open>tokens\<close> is the length of the \<open>response\<close> string of the body
  divided by four, rounded down. The handler divides the length of what the generation
  service returned, before trimming, while the body carries the stored, trimmed response:
  when the service returns four spaces the body's response is empty and \<open>tokens\<close> is 1.
\<close>

theorem tokens_of_trimmed_response_counterexample:
  "promptSchema (JObj [(lit ''prompt'', JStr (lit ''a''))]) = Inr (lit ''a'') \<and>
   trim (lit ''a'') \<noteq> [] \<and> length (lit ''a'') \<le> 2000 \<and>
   fst (generate_handler promptSchema (generateText_returns (lit ''    '')) MemStorage 0
          (JObj [(lit ''prompt'', JStr (lit ''a''))]) []) =
     \<lparr>status = 200, json = Generated 0 (lit ''a'') [] 0 1\<rparr> \<and>
   tokens (Generated 0 (lit ''a'') [] 0 1 :: zod_issue list json_body) \<noteq>
     length (gen_response (Generated 0 (lit ''a'') [] 0 1 :: zod_issue list json_body)) div 4"
  by (simp add: run_simps)

text \<open>
  C4, amended: for every successful generation, the \<open>response\<close> string of the 200 body is
  the output of the generation service trimmed, and the \<open>tokens\<close> field equals the length
  of that output before trimming, divided by four and rounded down. So \<open>tokens\<close> is at
  least the length of the body's \<open>response\<close> divided by four, rounded down, and equal to
  it whenever the output has no white space at either end.
\<close>

theorem tokens_of_untrimmed_output:
  assumes "schema body = Inr p" and "trim p \<noteq> []" and "length p \<le> 2000"
    and "generateText p = Inr out"
  shows "\<exists>i pr rs t n.
           fst (generate_handler schema generateText MemStorage now body store) =
             \<lparr>status = 200, json = Generated i pr rs t n\<rparr> \<and>
           rs = trim out \<and> n = length out div 4 \<and> length rs div 4 \<le> n \<and>
           (trim out = out \<longrightarrow> n = length rs div 4)"
proof -
  have "length (trim out) div 4 \<le> length out div 4"
    using length_trim_le [of out] by (rule div_le_mono)
  then show ?thesis
    using assms by (simp add: generate_handler_mem [where p = p and out = out])
qed

theorem tokens_of_untrimmed_output_witness:
  "promptSchema (JObj [(lit ''prompt'', JStr (lit ''a''))]) = Inr (lit ''a'') \<and>
   trim (lit ''a'') \<noteq> [] \<and> length (lit ''a'') \<le> 2000 \<and>
   generateText_returns (lit '' hello   '') (lit ''a'') = Inr (lit '' hello   '') \<and>
   (\<exists>i pr t.
      fst (generate_handler promptSchema (generateText_returns (lit '' hello   ''))
             MemStorage 0 (JObj [(lit ''prompt'', JStr (lit ''a''))]) []) =
        \<lparr>status = 200, json = Generated i pr (lit ''hello'') t 2\<rparr>) \<and>
   length (lit ''hello'') div 4 = 1 \<and>
   generateText_returns (lit ''hello'') (lit ''a'') = Inr (lit ''hello'') \<and>
   trim (lit ''hello'') = lit ''hello'' \<and>
   (\<exists>i pr t.
      fst (generate_handler promptSchema (generateText_returns (lit ''hello''))
             MemStorage 0 (JObj [(lit ''prompt'', JStr (lit ''a''))]) []) =
        \<lparr>status = 200, json = Generated i pr (lit ''hello'') t 1\<rparr>)"
proof -
  have h1: "promptSchema (JObj [(lit ''prompt'', JStr (lit ''a''))]) = Inr (lit ''a'')"
    by (simp add: promptSchema_def lit_def)
  have h2: "trim (lit ''a'') \<noteq> []"
    by (simp add: trim_def lit_def isWhiteSpace_def)
  have h3: "length (lit ''a'') \<le> 2000"
    by (simp add: lit_def)
  have h4: "generateText_returns (lit '' hello   '') (lit ''a'') = Inr (lit '' hello   '')"
    by (simp add: generateText_returns_def)
  have h5: "generateText_returns (lit ''hello'') (lit ''a'') = Inr (lit ''hello'')"
    by (simp add: generateText_returns_def)
  have t1: "trim (lit '' hello   '') = lit ''hello''"
    by (simp add: trim_def lit_def isWhiteSpace_def)
  have t2: "trim (lit ''hello'') = lit ''hello''"
    by (simp add: trim_def lit_def isWhiteSpace_def)
  have n1: "length (lit '' hello   '') div 4 = 2"
    by (simp add: lit_def)
  have n2: "length (lit ''hello'') div 4 = 1"
    by (simp add: lit_def)
  have padded:
    "\<exists>i pr t.
      fst (generate_handler promptSchema (generateText_returns (lit '' hello   ''))
             MemStorage 0 (JObj [(lit ''prompt'', JStr (lit ''a''))]) []) =
        \<lparr>status = 200, json = Generated i pr (lit ''hello'') t 2\<rparr>"
    using tokens_of_untrimmed_output [where schema = promptSchema
        and body = "JObj [(lit ''prompt'', JStr (lit ''a''))]" and p = "lit ''a''"
        and generateText = "generateText_returns (lit '' hello   '')"
        and out = "lit '' hello   ''" and now = 0 and store = "[]", OF h1 h2 h3 h4]
    unfolding t1 n1 by blast
  have plain:
    "\<exists>i pr t.
      fst (generate_handler promptSchema (generateText_returns (lit ''hello''))
             MemStorage 0 (JObj [(lit ''prompt'', JStr (lit ''a''))]) []) =
        \<lparr>status = 200, json = Generated i pr (lit ''hello'') t 1\<rparr>"
    using tokens_of_untrimmed_output [where schema = promptSchema
        and body = "JObj [(lit ''prompt'', JStr (lit ''a''))]" and p = "lit ''a''"
        and generateText = "generateText_returns (lit ''hello'')"
        and out = "lit ''hello''" and now = 0 and store = "[]", OF h1 h2 h3 h5]
    unfolding t2 n2 by blast
  from h1 h2 h3 h4 padded n2 h5 t2 plain show ?thesis
    by blast
qed

subsection \<open>C5: a successful generation appends one message\<close>

text \<open>
  C5: for every valid prompt on which the generation service succeeds, the store
  afterwards is the store before with exactly one entry added at the end, under an
  identifier that was not in use; the message's prompt is the trimmed prompt, its response
  the trimmed output of the service; \<open>getMessages\<close> then returns the earlier messages
  followed by this one; and the 200 body carries the message's id, prompt, response and
  createdAt.
\<close>

theorem generate_appends_one_message:
  assumes "schema body = Inr p" and "trim p \<noteq> []" and "length p \<le> 2000"
    and "generateText p = Inr out"
    and "getMessages MemStorage store = Inr ms"
  shows "\<exists>m n calls store'.
           generate_handler schema generateText MemStorage now body store =
             (\<lparr>status = 200,
               json = Generated (id_msg m) (prompt m) (response m) (createdAt m) n\<rparr>,
              calls, store') \<and>
           store' = store @ [(id_msg m, m)] \<and>
           getMessages MemStorage store' = Inr (ms @ [m]) \<and>
           prompt m = trim p \<and> response m = trim out \<and>
           id_msg m \<notin> fst ` set store"
proof -
  let ?m = "\<lparr>prompt = trim p, response = trim out, id_msg = fresh_id store, createdAt = now\<rparr>"
  have run: "generate_handler schema generateText MemStorage now body store =
           (\<lparr>status = 200,
             json = Generated (id_msg ?m) (prompt ?m) (response ?m) (createdAt ?m)
                      (length out div 4)\<rparr>,
            [Call_generateText p, Call_createMessage \<lparr>prompt = trim p, response = trim out\<rparr>],
            store @ [(id_msg ?m, ?m)])"
    using assms(1-4) by (simp add: generate_handler_mem [where p = p and out = out])
  have ms: "ms = map snd store"
    using assms(5) by (simp add: MemStorage_def mem_getMessages_def)
  have get: "getMessages MemStorage (store @ [(id_msg ?m, ?m)]) = Inr (ms @ [?m])"
    by (simp add: ms MemStorage_def mem_getMessages_def)
  have new: "id_msg ?m \<notin> fst ` set store"
    using fresh_id_new [of store] by simp
  have fields: "prompt ?m = trim p \<and> response ?m = trim out"
    by simp
  from run get new fields show ?thesis
    by blast
qed

theorem generate_appends_one_message_witness:
  "promptSchema (JObj [(lit ''prompt'', JStr (lit '' a ''))]) = Inr (lit '' a '') \<and>
   trim (lit '' a '') \<noteq> [] \<and> length (lit '' a '') \<le> 2000 \<and>
   generateText_returns (lit '' b '') (lit '' a '') = Inr (lit '' b '') \<and>
   getMessages MemStorage [] = Inr [] \<and>
   (\<exists>m n calls store'.
      generate_handler promptSchema (generateText_returns (lit '' b '')) MemStorage 5
        (JObj [(lit ''prompt'', JStr (lit '' a ''))]) [] =
        (\<lparr>status = 200,
          json = Generated (id_msg m) (prompt m) (response m) (createdAt m) n\<rparr>,
         calls, store') \<and>
      store' = [] @ [(id_msg m, m)] \<and>
      getMessages MemStorage store' = Inr ([] @ [m]) \<and>
      prompt m = lit ''a'' \<and> response m = lit ''b'')"
proof -
  have h1: "promptSchema (JObj [(lit ''prompt'', JStr (lit '' a ''))]) = Inr (lit '' a '')"
    by (simp add: promptSchema_def lit_def)
  have h2: "trim (lit '' a '') \<noteq> []"
    by (simp add: trim_def lit_def isWhiteSpace_def)
  have h3: "length (lit '' a '') \<le> 2000"
    by (simp add: lit_def)
  have h4: "generateText_returns (lit '' b '') (lit '' a '') = Inr (lit '' b '')"
    by (simp add: generateText_returns_def)
  have h5: "getMessages MemStorage [] = Inr []"
    by (simp add: MemStorage_def mem_getMessages_def)
  have t1: "trim (lit '' a '') = lit ''a''"
    by (simp add: trim_def lit_def isWhiteSpace_def)
  have t2: "trim (lit '' b '') = lit ''b''"
    by (simp add: trim_def lit_def isWhiteSpace_def)
  have "\<exists>m n calls store'.
      generate_handler promptSchema (generateText_returns (lit '' b '')) MemStorage 5
        (JObj [(lit ''prompt'', JStr (lit '' a ''))]) [] =
        (\<lparr>status = 200,
          json = Generated (id_msg m) (prompt m) (response m) (createdAt m) n\<rparr>,
         calls, store') \<and>
      store' = [] @ [(id_msg m, m)] \<and>
      getMessages MemStorage store' = Inr ([] @ [m]) \<and>
      prompt m = trim (lit '' a '') \<and> response m = trim (lit '' b '') \<and>
      id_msg m \<notin> fst ` set ([] :: message_store)"
    using h1 h2 h3 h4 h5
    by (rule generate_appends_one_message [where schema = promptSchema
          and generateText = "generateText_returns (lit '' b '')"])
  then show ?thesis
    using h1 h2 h3 h4 h5 unfolding t1 t2 by blast
qed

subsection \<open>C10: trimmed response, untrimmed token count\<close>

text \<open>
  C10: for every valid prompt and every output of the generation service, the \<open>response\<close>
  field of the 200 body is the trimmed output while \<open>tokens\<close> is the length of the
  untrimmed output divided by four, rounded down; and there is an output (four spaces) for
  which \<open>tokens\<close> differs from the length of the returned \<open>response\<close> divided by four.
\<close>

theorem response_trimmed_tokens_untrimmed:
  assumes "schema body = Inr p" and "trim p \<noteq> []" and "length p \<le> 2000"
    and "generateText p = Inr out"
  shows "(\<exists>i pr t.
            fst (generate_handler schema generateText MemStorage now body store) =
              \<lparr>status = 200, json = Generated i pr (trim out) t (length out div 4)\<rparr>) \<and>
         (\<exists>gen.
            tokens (json (fst (generate_handler schema gen MemStorage now body store))) \<noteq>
            length (gen_response
                      (json (fst (generate_handler schema gen MemStorage now body store)))) div 4)"
proof
  show "\<exists>i pr t.
            fst (generate_handler schema generateText MemStorage now body store) =
              \<lparr>status = 200, json = Generated i pr (trim out) t (length out div 4)\<rparr>"
    using assms by (simp add: generate_handler_mem [where p = p and out = out])
next
  let ?gen = "\<lambda>prompt_str :: jsstring. Inr (replicate 4 0x20)"
  have "?gen p = Inr (replicate 4 0x20)"
    by simp
  with assms(1-3)
  have "json (fst (generate_handler schema ?gen MemStorage now body store)) =
          Generated (fresh_id store) (trim p) (trim (replicate 4 0x20)) now
            (length (replicate 4 (0x20 :: 16 word)) div 4)"
    by (simp add: generate_handler_mem [where p = p and out = "replicate 4 0x20"])
  then have "tokens (json (fst (generate_handler schema ?gen MemStorage now body store))) \<noteq>
            length (gen_response
                      (json (fst (generate_handler schema ?gen MemStorage now body store)))) div 4"
    by (simp add: trim_spaces)
  then show "\<exists>gen.
            tokens (json (fst (generate_handler schema gen MemStorage now body store))) \<noteq>
            length (gen_response
                      (json (fst (generate_handler schema gen MemStorage now body store)))) div 4"
    by blast
qed

theorem response_trimmed_tokens_untrimmed_witness:
  "promptSchema (JObj [(lit ''prompt'', JStr (lit ''a''))]) = Inr (lit ''a'') \<and>
   trim (lit ''a'') \<noteq> [] \<and> length (lit ''a'') \<le> 2000 \<and>
   generateText_returns (lit ''  abcdef  '') (lit ''a'') = Inr (lit ''  abcdef  '') \<and>
   (\<exists>i pr t.
      fst (generate_handler promptSchema (generateText_returns (lit ''  abcdef  '')) MemStorage 0
             (JObj [(lit ''prompt'', JStr (lit ''a''))]) []) =
        \<lparr>status = 200, json = Generated i pr (lit ''abcdef'') t 2\<rparr>) \<and>
   length (lit ''abcdef'') div 4 = 1"
proof -
  have h1: "promptSchema (JObj [(lit ''prompt'', JStr (lit ''a''))]) = Inr (lit ''a'')"
    by (simp add: promptSchema_def lit_def)
  have h2: "trim (lit ''a'') \<noteq> []"
    by (simp add: trim_def lit_def isWhiteSpace_def)
  have h3: "length (lit ''a'') \<le> 2000"
    by (simp add: lit_def)
  have h4: "generateText_returns (lit ''  abcdef  '') (lit ''a'') = Inr (lit ''  abcdef  '')"
    by (simp add: generateText_returns_def)
  have t: "trim (lit ''  abcdef  '') = lit ''abcdef''"
    by (simp add: trim_def lit_def isWhiteSpace_def)
  have n: "length (lit ''  abcdef  '') div 4 = 2"
    by (simp add: lit_def)
  have m: "length (lit ''abcdef'') div 4 = 1"
    by (simp add: lit_def)
  show ?thesis
    using h1 h2 h3 h4 m
      response_trimmed_tokens_untrimmed [where schema = promptSchema
        and body = "JObj [(lit ''prompt'', JStr (lit ''a''))]" and p = "lit ''a''"
        and generateText = "generateText_returns (lit ''  abcdef  '')"
        and out = "lit ''  abcdef  ''" and now = 0 and store = "[]"]
    unfolding t n by blast
qed

subsection \<open>C6: messages are listed in the order of their creation\<close>

text \<open>
  C6: after any sequence of requests, \<open>GET /api/messages\<close> answers 200 with the messages
  the store held at the start followed by the messages that the successful generations
  of the sequence reported, in the order of those generations. From the empty store this
  is exactly the list of created messages in creation order.
\<close>

theorem messages_in_creation_order:
  assumes "serve reqs store = (ress, store')"
  shows "handle GetMessages store' =
           (\<lparr>status = 200, json = MessageList (map snd store @ created ress)\<rparr>,
            [Call_getMessages], store')"
  using serve_extends [OF assms] by (auto simp add: handle_GetMessages)

theorem messages_in_creation_order_witness:
  "serve example_requests [] =
     ([\<lparr>status = 200, json = Generated 0 (lit ''a'') (lit ''x'') 10 0\<rparr>,
       \<lparr>status = 500, json = ErrorBody (lit ''down'')\<rparr>,
       \<lparr>status = 200, json = MessageList [example_first]\<rparr>,
       \<lparr>status = 200, json = Generated 1 (lit ''c'') (lit ''y'') 12 0\<rparr>],
      [(0, example_first), (1, example_second)]) \<and>
   handle GetMessages [(0, example_first), (1, example_second)] =
     (\<lparr>status = 200, json = MessageList [example_first, example_second]\<rparr>,
      [Call_getMessages], [(0, example_first), (1, example_second)])"
proof -
  have "created
          [\<lparr>status = 200, json = Generated 0 (lit ''a'') (lit ''x'') 10 0\<rparr>,
           \<lparr>status = 500, json = ErrorBody (lit ''down'')\<rparr>,
           \<lparr>status = 200, json = MessageList [example_first]\<rparr>,
           \<lparr>status = 200, json = Generated 1 (lit ''c'') (lit ''y'') 12 0 :: zod_issue list json_body\<rparr>] =
        [example_first, example_second]"
    by (simp add: created_def example_first_def example_second_def)
  then show ?thesis
    using serve_example_requests messages_in_creation_order [OF serve_example_requests]
    by simp
qed

subsection \<open>C7: the store is append-only\<close>

text \<open>
  C7: for every sequence of requests to the two routes, the entries of the store before
  are a prefix of the entries after, so no stored message is changed or removed; and the
  list that \<open>GET /api/messages\<close> returned before is a prefix of the list it returns
  afterwards.
\<close>

theorem store_append_only:
  assumes "serve reqs store = (ress, store')"
    and "fst (handle GetMessages store) = \<lparr>status = 200, json = MessageList ms\<rparr>"
  shows "prefix store store' \<and>
         (\<exists>ms'. fst (handle GetMessages store') = \<lparr>status = 200, json = MessageList ms'\<rparr> \<and>
                prefix ms ms')"
  using serve_extends [OF assms(1)] assms(2) by (auto simp add: handle_GetMessages)

theorem store_append_only_witness:
  "serve (drop 1 example_requests) [(0, example_first)] =
     ([\<lparr>status = 500, json = ErrorBody (lit ''down'')\<rparr>,
       \<lparr>status = 200, json = MessageList [example_first]\<rparr>,
       \<lparr>status = 200, json = Generated 1 (lit ''c'') (lit ''y'') 12 0\<rparr>],
      [(0, example_first), (1, example_second)]) \<and>
   fst (handle GetMessages [(0, example_first)]) =
     \<lparr>status = 200, json = MessageList [example_first]\<rparr> \<and>
   prefix [(0, example_first)] [(0, example_first), (1, example_second)] \<and>
   (\<exists>ms'. fst (handle GetMessages [(0, example_first), (1, example_second)]) =
            \<lparr>status = 200, json = MessageList ms'\<rparr> \<and>
          prefix [example_first] ms')"
proof -
  have h1: "serve (drop 1 example_requests) [(0, example_first)] =
     ([\<lparr>status = 500, json = ErrorBody (lit ''down'')\<rparr>,
       \<lparr>status = 200, json = MessageList [example_first]\<rparr>,
       \<lparr>status = 200, json = Generated 1 (lit ''c'') (lit ''y'') 12 0\<rparr>],
      [(0, example_first), (1, example_second)])"
    by (simp add: example_requests_def example_first_def example_second_def run_simps)
  have h2: "fst (handle GetMessages [(0, example_first)]) =
     (\<lparr>status = 200, json = MessageList [example_first]\<rparr> :: zod_issue list http_response)"
    by (simp add: run_simps)
  show ?thesis
    using h1 h2 store_append_only [OF h1 h2] by simp
qed

end
